theory Spec2Isabelle
  imports Main
begin

section \<open>Element storage\<close>

text \<open>
  Both variants keep their elements in a Go \<^verbatim>\<open>map[T]struct{}\<close>, for any \<^verbatim>\<open>T comparable\<close>.
  The map finds a key with the \<^verbatim>\<open>==\<close> of \<^verbatim>\<open>T\<close>, and \<^verbatim>\<open>comparable\<close> admits types with values
  that are not equal to themselves: a \<^verbatim>\<open>float64\<close> NaN, and any struct, array or interface
  value that holds one. Such a key is never found: an assignment under it always makes a
  new entry, a lookup of it always misses, and a \<^verbatim>\<open>delete\<close> of it does nothing.

  The element type is the type \<open>'a\<close>, and the predicate \<open>nan\<close>, a parameter of every
  definition that touches keys, says which of its values are not equal to themselves. Two
  values that \<^verbatim>\<open>==\<close> holds equal are one value of \<open>'a\<close> (so the two zeros of \<^verbatim>\<open>float64\<close> are
  one value). Keys are taken to be hashable: for an interface-typed \<^verbatim>\<open>T\<close>, the values are
  of comparable dynamic types.

  The value type of the map carries no information, so the map is the list of its keys,
  in the order in which a \<^verbatim>\<open>range\<close> over it visits them. Go leaves that order
  unspecified: the theorems are stated for arbitrary key lists and speak about results
  through membership and size. A Go map holds a key that is equal to itself once, which is
  the predicate \<open>map_wf\<close>; it holds for the empty map and every operation keeps it.
\<close>

type_synonym 'a storage = "'a list"

definition go_eq :: "('a \<Rightarrow> bool) \<Rightarrow> 'a \<Rightarrow> 'a \<Rightarrow> bool" where
  \<comment> \<open>\<^verbatim>\<open>x == y\<close> on \<^verbatim>\<open>T\<close>\<close>
  "go_eq nan x y = (x = y \<and> \<not> nan x)"

definition map_wf :: "('a \<Rightarrow> bool) \<Rightarrow> 'a storage \<Rightarrow> bool" where
  "map_wf nan mp = distinct (filter (\<lambda>k. \<not> nan k) mp)"

definition make_map :: "'a storage" where
  \<comment> \<open>\<^verbatim>\<open>make(map[T]struct{})\<close>\<close>
  "make_map = []"

definition map_index :: "('a \<Rightarrow> bool) \<Rightarrow> 'a storage \<Rightarrow> 'a \<Rightarrow> bool" where
  \<comment> \<open>the second result of \<^verbatim>\<open>_, ok = s.m[item]\<close>: some key of the map \<^verbatim>\<open>==\<close> the item\<close>
  "map_index nan mp item = (\<exists>k \<in> set mp. go_eq nan k item)"

definition map_assign :: "('a \<Rightarrow> bool) \<Rightarrow> 'a \<Rightarrow> 'a storage \<Rightarrow> 'a storage" where
  \<comment> \<open>\<^verbatim>\<open>s.m[item] = keyExists\<close>: a new entry unless some key \<^verbatim>\<open>==\<close> the item\<close>
  "map_assign nan item mp = (if map_index nan mp item then mp else mp @ [item])"

definition map_delete :: "('a \<Rightarrow> bool) \<Rightarrow> 'a \<Rightarrow> 'a storage \<Rightarrow> 'a storage" where
  \<comment> \<open>\<^verbatim>\<open>delete(s.m, item)\<close>: the entry whose key \<^verbatim>\<open>==\<close> the item goes, if there is one\<close>
  "map_delete nan item mp = filter (\<lambda>k. \<not> go_eq nan k item) mp"

definition len :: "'a storage \<Rightarrow> int" where
  \<comment> \<open>\<^verbatim>\<open>len(s.m)\<close>, a Go \<^verbatim>\<open>int\<close>\<close>
  "len mp = int (length mp)"

text \<open>
  A \<^verbatim>\<open>range\<close> loop whose body is a closure returning whether to go on
  (\<^verbatim>\<open>if !f(item) { break }\<close>). The variables the closure captures and assigns are the
  state \<open>\<sigma>\<close> that the loop threads through the calls.
\<close>

fun range_loop :: "('a \<Rightarrow> 's \<Rightarrow> bool \<times> 's) \<Rightarrow> 'a storage \<Rightarrow> 's \<Rightarrow> 's" where
  "range_loop f [] \<sigma> = \<sigma>"
| "range_loop f (item # rest) \<sigma> =
     (case f item \<sigma> of (continue, \<sigma>') \<Rightarrow>
        if \<not> continue then \<sigma>' else range_loop f rest \<sigma>')"

section \<open>The common baseline \<^verbatim>\<open>set[T]\<close> (the non-thread-safe methods)\<close>

text \<open>
  The methods are given by their effect on the map that the field \<^verbatim>\<open>m\<close> refers to: a
  method that changes the map returns the new key list. Which map a set refers to, and
  which sets share one, is the subject of the section on pointers below.
\<close>

definition newNonTS :: "'a storage" where
  "newNonTS = make_map"

definition set_Add :: "('a \<Rightarrow> bool) \<Rightarrow> 'a storage \<Rightarrow> 'a list \<Rightarrow> 'a storage" where
  "set_Add nan s items =
     (if length items = 0 then s
      else fold (\<lambda>item mp. map_assign nan item mp) items s)"

definition set_Remove :: "('a \<Rightarrow> bool) \<Rightarrow> 'a storage \<Rightarrow> 'a list \<Rightarrow> 'a storage" where
  "set_Remove nan s items =
     (if length items = 0 then s
      else fold (\<lambda>item mp. map_delete nan item mp) items s)"

text \<open>
  \<^verbatim>\<open>Pop\<close> returns inside the first iteration of its \<^verbatim>\<open>range\<close> loop; when the map is
  empty the loop body never runs and the zero value of \<^verbatim>\<open>T\<close> is returned. The zero value
  depends on the element type and is a parameter.
\<close>

definition set_Pop ::
    "('a \<Rightarrow> bool) \<Rightarrow> 'a \<Rightarrow> 'a storage \<Rightarrow> ('a \<times> bool) \<times> 'a storage" where
  "set_Pop nan zeroVal s =
     (case s of
        item # _ \<Rightarrow> ((item, True), map_delete nan item s)
      | [] \<Rightarrow> ((zeroVal, False), s))"

text \<open>The loop of \<^verbatim>\<open>Has\<close>: \<^verbatim>\<open>if _, has = s.m[item]; !has { break }\<close>.\<close>

fun Has_loop :: "('a \<Rightarrow> bool) \<Rightarrow> 'a storage \<Rightarrow> 'a list \<Rightarrow> bool \<Rightarrow> bool" where
  "Has_loop nan s [] has = has"
| "Has_loop nan s (item # items) has =
     (let has' = map_index nan s item
      in if \<not> has' then has' else Has_loop nan s items has')"

definition set_Has :: "('a \<Rightarrow> bool) \<Rightarrow> 'a storage \<Rightarrow> 'a list \<Rightarrow> bool" where
  "set_Has nan s items =
     (if length items = 0 then False
      else Has_loop nan s items True)"

definition set_Size :: "'a storage \<Rightarrow> int" where
  "set_Size s = len s"

definition set_Clear :: "'a storage \<Rightarrow> 'a storage" where
  \<comment> \<open>\<^verbatim>\<open>s.m = make(map[T]struct{})\<close>: the field is given a new, empty map\<close>
  "set_Clear s = make_map"

definition set_IsEmpty :: "'a storage \<Rightarrow> bool" where
  "set_IsEmpty s = (set_Size s = 0)"

definition set_Each :: "'a storage \<Rightarrow> ('a \<Rightarrow> 's \<Rightarrow> bool \<times> 's) \<Rightarrow> 's \<Rightarrow> 's" where
  "set_Each s f \<sigma> = range_loop f s \<sigma>"

definition set_List :: "'a storage \<Rightarrow> 'a list" where
  \<comment> \<open>\<^verbatim>\<open>list = append(list, item)\<close> for each item of the range\<close>
  "set_List s = fold (\<lambda>item list. list @ [item]) s []"

definition set_Copy :: "('a \<Rightarrow> bool) \<Rightarrow> 'a storage \<Rightarrow> 'a storage" where
  \<comment> \<open>\<^verbatim>\<open>u := newNonTS(); for item := range s.m { u.Add(item) }\<close>: the map of \<^verbatim>\<open>u\<close>\<close>
  "set_Copy nan s = fold (\<lambda>item u. set_Add nan u [item]) s newNonTS"

section \<open>The thread-safe variant \<^verbatim>\<open>SetTS[T]\<close>\<close>

text \<open>
  \<^verbatim>\<open>SetTS\<close> embeds \<^verbatim>\<open>set\<close> and adds the lock \<^verbatim>\<open>l sync.RWMutex\<close>. Each of its methods is
  modelled with its effect on the storage and the sequence of events it performs on its
  own receiver, in program order: the calls on the receiver's lock and the accesses to the
  receiver's map. Events on the locks and maps of other sets are not recorded, and neither
  are the further read-lock calls that reach the receiver through an argument that is the
  receiver itself. A deferred unlock is the last event.
\<close>

datatype event = RLock | RUnlock | Lock | Unlock | Read | Write

text \<open>
  A \<^verbatim>\<open>range\<close> over the receiver's map reads the map once for every item it fetches and
  once more when it finds no further item.
\<close>

fun range_events :: "('a \<Rightarrow> 's \<Rightarrow> bool \<times> 's) \<Rightarrow> 'a storage \<Rightarrow> 's \<Rightarrow> event list" where
  "range_events f [] \<sigma> = [Read]"
| "range_events f (item # rest) \<sigma> =
     (case f item \<sigma> of (continue, \<sigma>') \<Rightarrow>
        if \<not> continue then [Read] else Read # range_events f rest \<sigma>')"

definition newTS :: "'a storage" where
  "newTS = make_map"

definition SetTS_Add ::
    "('a \<Rightarrow> bool) \<Rightarrow> 'a storage \<Rightarrow> 'a list \<Rightarrow> 'a storage \<times> event list" where
  "SetTS_Add nan s items =
     (if length items = 0 then (s, [])
      else (fold (\<lambda>item mp. map_assign nan item mp) items s,
            [Lock] @ map (\<lambda>item. Write) items @ [Unlock]))"

definition SetTS_Remove ::
    "('a \<Rightarrow> bool) \<Rightarrow> 'a storage \<Rightarrow> 'a list \<Rightarrow> 'a storage \<times> event list" where
  "SetTS_Remove nan s items =
     (if length items = 0 then (s, [])
      else (fold (\<lambda>item mp. map_delete nan item mp) items s,
            [Lock] @ map (\<lambda>item. Write) items @ [Unlock]))"

definition SetTS_Pop ::
    "('a \<Rightarrow> bool) \<Rightarrow> 'a \<Rightarrow> 'a storage \<Rightarrow> (('a \<times> bool) \<times> 'a storage) \<times> event list" where
  "SetTS_Pop nan zeroVal s =
     (case s of
        item # _ \<Rightarrow>
          (((item, True), map_delete nan item s), [RLock, Read, RUnlock, Lock, Write, Unlock])
      | [] \<Rightarrow> (((zeroVal, False), s), [RLock, Read, RUnlock]))"

fun Has_events :: "('a \<Rightarrow> bool) \<Rightarrow> 'a storage \<Rightarrow> 'a list \<Rightarrow> event list" where
  "Has_events nan s [] = []"
| "Has_events nan s (item # items) =
     Read # (if \<not> map_index nan s item then [] else Has_events nan s items)"

definition SetTS_Has :: "('a \<Rightarrow> bool) \<Rightarrow> 'a storage \<Rightarrow> 'a list \<Rightarrow> bool \<times> event list" where
  "SetTS_Has nan s items =
     (if length items = 0 then (False, [])
      else (Has_loop nan s items True, [RLock] @ Has_events nan s items @ [RUnlock]))"

definition SetTS_Size :: "'a storage \<Rightarrow> int \<times> event list" where
  "SetTS_Size s = (len s, [RLock, Read, RUnlock])"

definition SetTS_Clear :: "'a storage \<Rightarrow> 'a storage \<times> event list" where
  "SetTS_Clear s = (make_map, [Lock, Write, Unlock])"

definition SetTS_Each ::
    "'a storage \<Rightarrow> ('a \<Rightarrow> 's \<Rightarrow> bool \<times> 's) \<Rightarrow> 's \<Rightarrow> 's \<times> event list" where
  "SetTS_Each s f \<sigma> = (range_loop f s \<sigma>, [RLock] @ range_events f s \<sigma> @ [RUnlock])"

definition SetTS_List :: "'a storage \<Rightarrow> 'a list \<times> event list" where
  "SetTS_List s =
     (fold (\<lambda>item list. list @ [item]) s [],
      [RLock, Read] @ range_events (\<lambda>item u. (True, u)) s () @ [RUnlock])"

text \<open>
  \<^verbatim>\<open>SetTS.Copy\<close> ranges over \<^verbatim>\<open>s.m\<close> without a call on \<^verbatim>\<open>s.l\<close>; the lock that
  \<^verbatim>\<open>u.Add\<close> takes is the lock of the new set \<^verbatim>\<open>u\<close>.
\<close>

definition SetTS_Copy :: "('a \<Rightarrow> bool) \<Rightarrow> 'a storage \<Rightarrow> 'a storage \<times> event list" where
  "SetTS_Copy nan s =
     (fold (\<lambda>item u. fst (SetTS_Add nan u [item])) s newTS,
      range_events (\<lambda>item u. (True, u)) s ())"

section \<open>The interface \<^verbatim>\<open>Set[T]\<close>\<close>

text \<open>
  A value of the interface is a set of one of the two dynamic types. A call through the
  interface runs the method of the dynamic type: \<^verbatim>\<open>SetTS\<close> declares its own \<^verbatim>\<open>Add\<close>,
  \<^verbatim>\<open>Remove\<close>, \<^verbatim>\<open>Pop\<close>, \<^verbatim>\<open>Has\<close>, \<^verbatim>\<open>Size\<close>, \<^verbatim>\<open>Clear\<close>, \<^verbatim>\<open>IsEqual\<close>, \<^verbatim>\<open>Each\<close>,
  \<^verbatim>\<open>List\<close>, \<^verbatim>\<open>Copy\<close> and \<^verbatim>\<open>Merge\<close>, and gets \<^verbatim>\<open>IsEmpty\<close> and \<^verbatim>\<open>Separate\<close> from the
  embedded \<^verbatim>\<open>set\<close>. The events of a \<^verbatim>\<open>SetTS\<close> method are dropped here.
\<close>

datatype 'a Set = SetNonTS "'a storage" | SetTS "'a storage"

fun m_of :: "'a Set \<Rightarrow> 'a storage" where
  \<comment> \<open>the map of the field \<^verbatim>\<open>m\<close> of either dynamic type\<close>
  "m_of (SetNonTS s) = s"
| "m_of (SetTS s) = s"

fun is_SetTS :: "'a Set \<Rightarrow> bool" where
  "is_SetTS (SetTS s) = True"
| "is_SetTS (SetNonTS s) = False"

fun Add :: "('a \<Rightarrow> bool) \<Rightarrow> 'a Set \<Rightarrow> 'a list \<Rightarrow> 'a Set" where
  "Add nan (SetNonTS s) items = SetNonTS (set_Add nan s items)"
| "Add nan (SetTS s) items = SetTS (fst (SetTS_Add nan s items))"

fun Remove :: "('a \<Rightarrow> bool) \<Rightarrow> 'a Set \<Rightarrow> 'a list \<Rightarrow> 'a Set" where
  "Remove nan (SetNonTS s) items = SetNonTS (set_Remove nan s items)"
| "Remove nan (SetTS s) items = SetTS (fst (SetTS_Remove nan s items))"

fun Pop :: "('a \<Rightarrow> bool) \<Rightarrow> 'a \<Rightarrow> 'a Set \<Rightarrow> ('a \<times> bool) \<times> 'a Set" where
  "Pop nan zeroVal (SetNonTS s) =
     (case set_Pop nan zeroVal s of (r, s') \<Rightarrow> (r, SetNonTS s'))"
| "Pop nan zeroVal (SetTS s) =
     (case fst (SetTS_Pop nan zeroVal s) of (r, s') \<Rightarrow> (r, SetTS s'))"

fun Has :: "('a \<Rightarrow> bool) \<Rightarrow> 'a Set \<Rightarrow> 'a list \<Rightarrow> bool" where
  "Has nan (SetNonTS s) items = set_Has nan s items"
| "Has nan (SetTS s) items = fst (SetTS_Has nan s items)"

fun Size :: "'a Set \<Rightarrow> int" where
  "Size (SetNonTS s) = set_Size s"
| "Size (SetTS s) = fst (SetTS_Size s)"

fun Clear :: "'a Set \<Rightarrow> 'a Set" where
  "Clear (SetNonTS s) = SetNonTS (set_Clear s)"
| "Clear (SetTS s) = SetTS (fst (SetTS_Clear s))"

fun IsEmpty :: "'a Set \<Rightarrow> bool" where
  "IsEmpty (SetNonTS s) = set_IsEmpty s"
| "IsEmpty (SetTS s) = set_IsEmpty s"

fun Each :: "'a Set \<Rightarrow> ('a \<Rightarrow> 's \<Rightarrow> bool \<times> 's) \<Rightarrow> 's \<Rightarrow> 's" where
  "Each (SetNonTS s) f \<sigma> = set_Each s f \<sigma>"
| "Each (SetTS s) f \<sigma> = fst (SetTS_Each s f \<sigma>)"

fun List :: "'a Set \<Rightarrow> 'a list" where
  "List (SetNonTS s) = set_List s"
| "List (SetTS s) = fst (SetTS_List s)"

fun Copy :: "('a \<Rightarrow> bool) \<Rightarrow> 'a Set \<Rightarrow> 'a Set" where
  "Copy nan (SetNonTS s) = SetNonTS (set_Copy nan s)"
| "Copy nan (SetTS s) = SetTS (fst (SetTS_Copy nan s))"

subsection \<open>Methods that take another set\<close>

text \<open>
  The type assertion \<^verbatim>\<open>t.(RWLockable)\<close> of \<^verbatim>\<open>set.IsEqual\<close> fails for both dynamic types
  (neither declares \<^verbatim>\<open>Lock\<close>, \<^verbatim>\<open>Unlock\<close>, \<^verbatim>\<open>RLock\<close>, \<^verbatim>\<open>RUnlock\<close>), so that branch is
  never taken. The closure assigns the captured variable \<^verbatim>\<open>equal\<close> and returns it.
\<close>

definition set_IsEqual :: "('a \<Rightarrow> bool) \<Rightarrow> 'a storage \<Rightarrow> 'a Set \<Rightarrow> bool" where
  "set_IsEqual nan s t =
     (let sameSize = (len s = Size t)
      in if \<not> sameSize then False
         else Each t (\<lambda>item equal. let equal' = map_index nan s item in (equal', equal')) True)"

definition SetTS_IsEqual ::
    "('a \<Rightarrow> bool) \<Rightarrow> 'a storage \<Rightarrow> 'a Set \<Rightarrow> bool \<times> event list" where
  "SetTS_IsEqual nan s t =
     (let sameSize = (len s = Size t)
      in if \<not> sameSize then (False, [RLock, Read, RUnlock])
         else (Each t (\<lambda>item equal. let equal' = map_index nan s item in (equal', equal')) True,
               [RLock, Read] @ Has_events nan s (List t) @ [RUnlock]))"

text \<open>
  \<^verbatim>\<open>Merge\<close> assigns into the receiver's map inside the range over the map of \<^verbatim>\<open>t\<close>. When
  both are one map, an entry made during the range (which only an item that is not equal to
  itself makes) may or may not be produced by the range; here it is not.
\<close>

definition set_Merge :: "('a \<Rightarrow> bool) \<Rightarrow> 'a storage \<Rightarrow> 'a Set \<Rightarrow> 'a storage" where
  "set_Merge nan s t = Each t (\<lambda>item mp. (True, map_assign nan item mp)) s"

definition SetTS_Merge ::
    "('a \<Rightarrow> bool) \<Rightarrow> 'a storage \<Rightarrow> 'a Set \<Rightarrow> 'a storage \<times> event list" where
  "SetTS_Merge nan s t =
     (Each t (\<lambda>item mp. (True, map_assign nan item mp)) s,
      [Lock] @ map (\<lambda>item. Write) (List t) @ [Unlock])"

definition set_Separate :: "('a \<Rightarrow> bool) \<Rightarrow> 'a storage \<Rightarrow> 'a Set \<Rightarrow> 'a storage" where
  "set_Separate nan s t = set_Remove nan s (List t)"

fun IsEqual :: "('a \<Rightarrow> bool) \<Rightarrow> 'a Set \<Rightarrow> 'a Set \<Rightarrow> bool" where
  "IsEqual nan (SetNonTS s) t = set_IsEqual nan s t"
| "IsEqual nan (SetTS s) t = fst (SetTS_IsEqual nan s t)"

fun Merge :: "('a \<Rightarrow> bool) \<Rightarrow> 'a Set \<Rightarrow> 'a Set \<Rightarrow> 'a Set" where
  "Merge nan (SetNonTS s) t = SetNonTS (set_Merge nan s t)"
| "Merge nan (SetTS s) t = SetTS (fst (SetTS_Merge nan s t))"

fun Separate :: "('a \<Rightarrow> bool) \<Rightarrow> 'a Set \<Rightarrow> 'a Set \<Rightarrow> 'a Set" where
  "Separate nan (SetNonTS s) t = SetNonTS (set_Separate nan s t)"
| "Separate nan (SetTS s) t = SetTS (set_Separate nan s t)"

section \<open>Construction and the package-level functions\<close>

text \<open>
  \<^verbatim>\<open>SetType\<close> is a Go \<^verbatim>\<open>int\<close>; its width depends on the platform, and \<^verbatim>\<open>New\<close> only
  compares it, so it is modelled by the integers. The constants are \<^verbatim>\<open>iota\<close> values.
\<close>

type_synonym SetType = int

definition ThreadSafe :: SetType where
  "ThreadSafe = 0"

definition NonThreadSafe :: SetType where
  "NonThreadSafe = 1"

definition New :: "SetType \<Rightarrow> 'a Set" where
  "New setType = (if setType = NonThreadSafe then SetNonTS newNonTS else SetTS newTS)"

definition Union_sets :: "('a \<Rightarrow> bool) \<Rightarrow> 'a Set \<Rightarrow> 'a Set \<Rightarrow> 'a Set list \<Rightarrow> 'a Set" where
  "Union_sets nan set1 set2 sets =
     (let u = Copy nan set1;
          u = Each set2 (\<lambda>item u. (True, Add nan u [item])) u
      in fold (\<lambda>set' u. Each set' (\<lambda>item u. (True, Add nan u [item])) u) sets u)"

definition Difference :: "('a \<Rightarrow> bool) \<Rightarrow> 'a Set \<Rightarrow> 'a Set \<Rightarrow> 'a Set list \<Rightarrow> 'a Set" where
  "Difference nan set1 set2 sets =
     (let s = Copy nan set1;
          s = Separate nan s set2
      in fold (\<lambda>set' s. Separate nan s set') sets s)"

definition Intersection :: "('a \<Rightarrow> bool) \<Rightarrow> 'a Set \<Rightarrow> 'a Set \<Rightarrow> 'a Set list \<Rightarrow> 'a Set" where
  "Intersection nan set1 set2 sets =
     (let all = Union_sets nan set1 set2 sets;
          result = Union_sets nan set1 set2 sets
      in Each all
           (\<lambda>item result.
              let result = (if \<not> Has nan set1 [item] \<or> \<not> Has nan set2 [item]
                            then Remove nan result [item] else result);
                  result = fold (\<lambda>set' result.
                                   if \<not> Has nan set' [item] then Remove nan result [item]
                                   else result)
                             sets result
              in (True, result))
           result)"

text \<open>
  The body of the closure that \<^verbatim>\<open>Intersection\<close> passes to \<^verbatim>\<open>all.Each\<close>, as a function
  of the candidate and of \<^verbatim>\<open>result\<close>.
\<close>

definition candidate_step ::
    "('a \<Rightarrow> bool) \<Rightarrow> 'a Set \<Rightarrow> 'a Set \<Rightarrow> 'a Set list \<Rightarrow> 'a \<Rightarrow> 'a Set \<Rightarrow> 'a Set" where
  "candidate_step nan set1 set2 sets item result =
     fold (\<lambda>set' result. if \<not> Has nan set' [item] then Remove nan result [item] else result) sets
       (if \<not> Has nan set1 [item] \<or> \<not> Has nan set2 [item] then Remove nan result [item]
        else result)"

definition SymmetricDifference :: "('a \<Rightarrow> bool) \<Rightarrow> 'a Set \<Rightarrow> 'a Set \<Rightarrow> 'a Set" where
  "SymmetricDifference nan s t =
     (let u = Difference nan s t [];
          v = Difference nan t s []
      in Union_sets nan u v [])"

section \<open>Sequences of calls\<close>

text \<open>A finite sequence of \<^verbatim>\<open>Add\<close> and \<^verbatim>\<open>Remove\<close> calls, each with its variadic arguments.\<close>

datatype 'a call = CallAdd "'a list" | CallRemove "'a list"

fun call_args :: "'a call \<Rightarrow> 'a list" where
  "call_args (CallAdd items) = items"
| "call_args (CallRemove items) = items"

fun apply_call :: "('a \<Rightarrow> bool) \<Rightarrow> 'a Set \<Rightarrow> 'a call \<Rightarrow> 'a Set" where
  "apply_call nan s (CallAdd items) = Add nan s items"
| "apply_call nan s (CallRemove items) = Remove nan s items"

definition run_calls :: "('a \<Rightarrow> bool) \<Rightarrow> 'a Set \<Rightarrow> 'a call list \<Rightarrow> 'a Set" where
  "run_calls nan s calls = foldl (apply_call nan) s calls"

text \<open>
  The specification's side of the count: an element was added and not subsequently
  removed when some call adds it and no later call removes it.
\<close>

fun adds :: "'a call \<Rightarrow> 'a \<Rightarrow> bool" where
  "adds (CallAdd items) x = (x \<in> set items)"
| "adds (CallRemove items) x = False"

fun removes :: "'a call \<Rightarrow> 'a \<Rightarrow> bool" where
  "removes (CallRemove items) x = (x \<in> set items)"
| "removes (CallAdd items) x = False"

fun added_not_removed :: "'a call list \<Rightarrow> 'a \<Rightarrow> bool" where
  "added_not_removed [] x = False"
| "added_not_removed (c # cs) x =
     ((adds c x \<and> \<not> (\<exists>c' \<in> set cs. removes c' x)) \<or> added_not_removed cs x)"

section \<open>Sets as objects: pointers, and the maps they refer to\<close>

text \<open>
  Callers hold a set by pointer, to a \<^verbatim>\<open>SetNonTS\<close> or a \<^verbatim>\<open>SetTS\<close> struct. A Go map value
  is a reference: two structs whose fields \<^verbatim>\<open>m\<close> hold the same map share their elements,
  and a change made through one is seen through the other. The heap therefore has two
  parts: the structs allocated so far, each with its dynamic type (whether it is a
  \<^verbatim>\<open>SetTS\<close>) and the address of the map its field \<^verbatim>\<open>m\<close> refers to, and the maps allocated so
  far. An address is an index, and an allocation appends. Pointers are taken to be
  allocated (Go has no dangling pointer; a nil receiver is not a set).
\<close>

type_synonym addr = nat

record 'a heap =
  structs :: "(bool \<times> addr) list"
  tables :: "'a storage list"

definition heap_wf :: "'a heap \<Rightarrow> bool" where
  \<comment> \<open>every field \<^verbatim>\<open>m\<close> refers to an allocated map\<close>
  "heap_wf h = (\<forall>s \<in> set (structs h). snd s < length (tables h))"

definition m_addr :: "'a heap \<Rightarrow> addr \<Rightarrow> addr" where
  \<comment> \<open>the map that \<^verbatim>\<open>s.m\<close> refers to, for the struct at \<open>p\<close>\<close>
  "m_addr h p = snd (structs h ! p)"

definition set_at :: "'a heap \<Rightarrow> addr \<Rightarrow> 'a Set" where
  \<comment> \<open>the set at \<open>p\<close>: its dynamic type and the keys of its map\<close>
  "set_at h p =
     (if fst (structs h ! p) then SetTS (tables h ! m_addr h p)
      else SetNonTS (tables h ! m_addr h p))"

definition write_m :: "'a heap \<Rightarrow> addr \<Rightarrow> 'a storage \<Rightarrow> 'a heap" where
  \<comment> \<open>an assignment or \<^verbatim>\<open>delete\<close> on \<^verbatim>\<open>s.m\<close> changes the map that the field refers to\<close>
  "write_m h p mp = h\<lparr>tables := (tables h)[m_addr h p := mp]\<rparr>"

definition make_m :: "'a heap \<Rightarrow> addr \<Rightarrow> 'a heap" where
  \<comment> \<open>\<^verbatim>\<open>s.m = make(map[T]struct{})\<close>: a new map, and the field refers to it from now on\<close>
  "make_m h p =
     h\<lparr>tables := tables h @ [make_map],
       structs := (structs h)[p := (fst (structs h ! p), length (tables h))]\<rparr>"

definition new_set :: "bool \<Rightarrow> 'a heap \<Rightarrow> 'a heap \<times> addr" where
  \<comment> \<open>\<^verbatim>\<open>newNonTS\<close> and \<^verbatim>\<open>newTS\<close>: a new struct whose \<^verbatim>\<open>m\<close> is a new map\<close>
  "new_set ts h =
     (h\<lparr>tables := tables h @ [make_map],
        structs := structs h @ [(ts, length (tables h))]\<rparr>,
      length (structs h))"

definition Add_at :: "('a \<Rightarrow> bool) \<Rightarrow> 'a heap \<Rightarrow> addr \<Rightarrow> 'a list \<Rightarrow> 'a heap" where
  "Add_at nan h p items = write_m h p (m_of (Add nan (set_at h p) items))"

definition Remove_at :: "('a \<Rightarrow> bool) \<Rightarrow> 'a heap \<Rightarrow> addr \<Rightarrow> 'a list \<Rightarrow> 'a heap" where
  "Remove_at nan h p items = write_m h p (m_of (Remove nan (set_at h p) items))"

definition Pop_at :: "('a \<Rightarrow> bool) \<Rightarrow> 'a \<Rightarrow> 'a heap \<Rightarrow> addr \<Rightarrow> ('a \<times> bool) \<times> 'a heap" where
  "Pop_at nan zeroVal h p =
     (case Pop nan zeroVal (set_at h p) of (r, s') \<Rightarrow> (r, write_m h p (m_of s')))"

definition Clear_at :: "'a heap \<Rightarrow> addr \<Rightarrow> 'a heap" where
  "Clear_at h p = make_m h p"

text \<open>
  \<^verbatim>\<open>Merge\<close> and \<^verbatim>\<open>Separate\<close> read their argument, which may be the receiver itself.
  \<^verbatim>\<open>SetTS.Merge\<close> holds the receiver's exclusive lock while it calls \<^verbatim>\<open>t.Each\<close>, which
  takes the read lock of \<^verbatim>\<open>t\<close>: when \<^verbatim>\<open>t\<close> is the receiver the call never returns, which
  is the result \<open>None\<close>. \<^verbatim>\<open>Separate\<close> is the method of the embedded \<^verbatim>\<open>set\<close> for both
  dynamic types and takes the list of its argument before it removes.
\<close>

definition Merge_at :: "('a \<Rightarrow> bool) \<Rightarrow> 'a heap \<Rightarrow> addr \<Rightarrow> addr \<Rightarrow> 'a heap option" where
  "Merge_at nan h p q =
     (if is_SetTS (set_at h p) \<and> q = p then None
      else Some (write_m h p (m_of (Merge nan (set_at h p) (set_at h q)))))"

definition Separate_at :: "('a \<Rightarrow> bool) \<Rightarrow> 'a heap \<Rightarrow> addr \<Rightarrow> addr \<Rightarrow> 'a heap" where
  "Separate_at nan h p q = write_m h p (m_of (Separate nan (set_at h p) (set_at h q)))"

text \<open>
  \<^verbatim>\<open>Copy\<close>: \<^verbatim>\<open>u := newNonTS()\<close> (or \<^verbatim>\<open>newTS()\<close>), then \<^verbatim>\<open>u.Add(item)\<close> for each item of
  the range over the receiver's map; the result is the pointer \<^verbatim>\<open>u\<close>.
\<close>

definition Copy_at :: "('a \<Rightarrow> bool) \<Rightarrow> 'a heap \<Rightarrow> addr \<Rightarrow> 'a heap \<times> addr" where
  "Copy_at nan h p =
     (case new_set (is_SetTS (set_at h p)) h of
        (h1, u) \<Rightarrow> (fold (\<lambda>item h'. Add_at nan h' u [item]) (m_of (set_at h p)) h1, u))"

text \<open>The mutating methods as calls, so that a sequence of them can be run.\<close>

datatype 'a mutation =
    MutAdd "'a list" | MutRemove "'a list" | MutPop | MutClear | MutMerge addr | MutSeparate addr

fun mutate ::
    "('a \<Rightarrow> bool) \<Rightarrow> 'a \<Rightarrow> 'a heap \<Rightarrow> addr \<Rightarrow> 'a mutation \<Rightarrow> 'a heap option" where
  "mutate nan zeroVal h p (MutAdd items) = Some (Add_at nan h p items)"
| "mutate nan zeroVal h p (MutRemove items) = Some (Remove_at nan h p items)"
| "mutate nan zeroVal h p MutPop = Some (snd (Pop_at nan zeroVal h p))"
| "mutate nan zeroVal h p MutClear = Some (Clear_at h p)"
| "mutate nan zeroVal h p (MutMerge q) = Merge_at nan h p q"
| "mutate nan zeroVal h p (MutSeparate q) = Some (Separate_at nan h p q)"

text \<open>A sequence of calls, each on its own receiver, stops at a call that does not return.\<close>

fun mutate_all ::
    "('a \<Rightarrow> bool) \<Rightarrow> 'a \<Rightarrow> 'a heap \<Rightarrow> (addr \<times> 'a mutation) list \<Rightarrow> 'a heap option" where
  "mutate_all nan zeroVal h [] = Some h"
| "mutate_all nan zeroVal h ((p, mu) # rest) =
     (case mutate nan zeroVal h p mu of
        None \<Rightarrow> None
      | Some h' \<Rightarrow> mutate_all nan zeroVal h' rest)"

fun allocated :: "'a heap \<Rightarrow> addr \<times> 'a mutation \<Rightarrow> bool" where
  "allocated h (p, MutMerge q) = (p < length (structs h) \<and> q < length (structs h))"
| "allocated h (p, MutSeparate q) = (p < length (structs h) \<and> q < length (structs h))"
| "allocated h (p, mu) = (p < length (structs h))"

section \<open>The locking discipline\<close>

text \<open>
  The discipline of the specification, checked on the events of one call: a read of the
  map happens while the caller holds the read lock (or the exclusive lock), a write while
  it holds the exclusive lock. The state is the number of read locks held and whether the
  exclusive lock is held.
\<close>

fun guarded :: "nat \<Rightarrow> bool \<Rightarrow> event list \<Rightarrow> bool" where
  "guarded r w [] = True"
| "guarded r w (RLock # es) = guarded (Suc r) w es"
| "guarded r w (RUnlock # es) = guarded (r - 1) w es"
| "guarded r w (Lock # es) = guarded r True es"
| "guarded r w (Unlock # es) = guarded r False es"
| "guarded r w (Read # es) = ((0 < r \<or> w) \<and> guarded r w es)"
| "guarded r w (Write # es) = (w \<and> guarded r w es)"

definition lock_discipline :: "event list \<Rightarrow> bool" where
  "lock_discipline es = guarded 0 False es"

section \<open>An element type with a value that is not equal to itself\<close>

text \<open>
  For concrete inputs: \<^verbatim>\<open>float64\<close> as far as its \<^verbatim>\<open>==\<close> matters, with NaN and the values
  \<open>Float n\<close> that stand for the numbers \<open>n\<close>. An element type such as \<^verbatim>\<open>int\<close> or
  \<^verbatim>\<open>string\<close>, all of whose values are equal to themselves, has the predicate \<open>no_nan\<close>.
\<close>

datatype float64 = NaN | Float int

fun is_NaN :: "float64 \<Rightarrow> bool" where
  "is_NaN NaN = True"
| "is_NaN (Float n) = False"

definition no_nan :: "'a \<Rightarrow> bool" where
  "no_nan x = False"

section \<open>Properties of the storage and of the baseline methods\<close>

lemma map_index_iff: "map_index nan mp item = (\<not> nan item \<and> item \<in> set mp)"
  by (auto simp: map_index_def go_eq_def)

lemma map_delete_eq: "map_delete nan item mp = (if nan item then mp else removeAll item mp)"
  by (induction mp) (auto simp: map_delete_def go_eq_def)

lemma set_map_assign: "set (map_assign nan x mp) = insert x (set mp)"
  by (auto simp: map_assign_def map_index_iff)

lemma map_wf_map_assign: "map_wf nan mp \<Longrightarrow> map_wf nan (map_assign nan x mp)"
  by (auto simp: map_assign_def map_index_iff map_wf_def)

lemma set_map_delete: "set (map_delete nan x mp) = (if nan x then set mp else set mp - {x})"
  by (simp add: map_delete_eq)

lemma map_wf_map_delete: "map_wf nan mp \<Longrightarrow> map_wf nan (map_delete nan x mp)"
proof -
  have "filter (\<lambda>k. \<not> nan k) (map_delete nan x mp)
      = filter (\<lambda>k. \<not> go_eq nan k x) (filter (\<lambda>k. \<not> nan k) mp)"
    by (simp add: map_delete_def conj_commute)
  then show "map_wf nan mp \<Longrightarrow> map_wf nan (map_delete nan x mp)"
    by (simp add: map_wf_def del: filter_filter)
qed

lemma map_wf_distinct: "map_wf nan mp \<Longrightarrow> \<forall>k \<in> set mp. \<not> nan k \<Longrightarrow> distinct mp"
  by (simp add: map_wf_def)

lemma set_fold_assign: "set (fold (map_assign nan) items s) = set s \<union> set items"
  by (induction items arbitrary: s) (auto simp: set_map_assign)

lemma map_wf_fold_assign: "map_wf nan s \<Longrightarrow> map_wf nan (fold (map_assign nan) items s)"
  by (induction items arbitrary: s) (auto simp: map_wf_map_assign)

lemma set_fold_delete:
  "set (fold (map_delete nan) items s) = set s - {x \<in> set items. \<not> nan x}"
  by (induction items arbitrary: s) (auto simp: set_map_delete)

lemma map_wf_fold_delete: "map_wf nan s \<Longrightarrow> map_wf nan (fold (map_delete nan) items s)"
  by (induction items arbitrary: s) (auto simp: map_wf_map_delete)

lemma set_set_Add: "set (set_Add nan s items) = set s \<union> set items"
  by (simp add: set_Add_def set_fold_assign)

lemma map_wf_set_Add: "map_wf nan s \<Longrightarrow> map_wf nan (set_Add nan s items)"
  by (simp add: set_Add_def map_wf_fold_assign)

lemma set_set_Remove: "set (set_Remove nan s items) = set s - {x \<in> set items. \<not> nan x}"
  by (simp add: set_Remove_def set_fold_delete)

lemma map_wf_set_Remove: "map_wf nan s \<Longrightarrow> map_wf nan (set_Remove nan s items)"
  by (simp add: set_Remove_def map_wf_fold_delete)

lemma Has_loop_eq:
  "Has_loop nan s items h
     = (if items = [] then h else (\<forall>x \<in> set items. \<not> nan x \<and> x \<in> set s))"
  by (induction items arbitrary: h) (auto simp: map_index_iff Let_def)

lemma set_Has_iff:
  "set_Has nan s items = (items \<noteq> [] \<and> (\<forall>x \<in> set items. \<not> nan x \<and> x \<in> set s))"
  by (auto simp: set_Has_def Has_loop_eq)

lemma fold_append_single: "fold (\<lambda>item list. list @ [item]) xs acc = acc @ xs"
  by (induction xs arbitrary: acc) auto

lemma set_List_eq: "set_List s = s"
  by (simp add: set_List_def fold_append_single)

lemma range_loop_continue: "range_loop (\<lambda>item \<sigma>. (True, g item \<sigma>)) xs \<sigma> = fold g xs \<sigma>"
  by (induction xs arbitrary: \<sigma>) auto

lemma set_Add_single: "set_Add nan u [item] = map_assign nan item u"
  by (simp add: set_Add_def)

lemma set_Copy_fold: "set_Copy nan s = fold (map_assign nan) s []"
  by (simp add: set_Copy_def set_Add_single newNonTS_def make_map_def cong: fold_cong)

lemma set_set_Copy: "set (set_Copy nan s) = set s"
  by (simp add: set_Copy_fold set_fold_assign)

lemma map_wf_set_Copy: "map_wf nan (set_Copy nan s)"
proof -
  have "map_wf nan []"
    by (simp add: map_wf_def)
  then show ?thesis
    by (simp only: set_Copy_fold map_wf_fold_assign)
qed

text \<open>A copy of a well-formed map has the same entries: nothing is dropped or merged.\<close>

lemma fold_assign_append:
  "map_wf nan (acc @ xs) \<Longrightarrow> fold (map_assign nan) xs acc = acc @ xs"
proof (induction xs arbitrary: acc)
  case Nil
  then show ?case by simp
next
  case (Cons x xs)
  from Cons.prems have "\<not> map_index nan acc x"
    by (auto simp: map_index_iff map_wf_def)
  then have "map_assign nan x acc = acc @ [x]"
    by (simp add: map_assign_def)
  with Cons.IH [of "acc @ [x]"] Cons.prems show ?case
    by simp
qed

lemma set_Copy_id: "map_wf nan s \<Longrightarrow> set_Copy nan s = s"
  using fold_assign_append [of nan "[]" s] by (simp add: set_Copy_fold)

subsection \<open>The thread-safe methods on the storage\<close>

lemma fst_SetTS_Add: "fst (SetTS_Add nan s items) = set_Add nan s items"
  by (simp add: SetTS_Add_def set_Add_def)

lemma fst_SetTS_Remove: "fst (SetTS_Remove nan s items) = set_Remove nan s items"
  by (simp add: SetTS_Remove_def set_Remove_def)

lemma fst_SetTS_Pop: "fst (SetTS_Pop nan z s) = set_Pop nan z s"
  by (simp add: SetTS_Pop_def set_Pop_def split: list.splits)

lemma fst_SetTS_Has: "fst (SetTS_Has nan s items) = set_Has nan s items"
  by (simp add: SetTS_Has_def set_Has_def)

lemma fst_SetTS_Size: "fst (SetTS_Size s) = set_Size s"
  by (simp add: SetTS_Size_def set_Size_def)

lemma fst_SetTS_Clear: "fst (SetTS_Clear s) = set_Clear s"
  by (simp add: SetTS_Clear_def set_Clear_def)

lemma fst_SetTS_Each: "fst (SetTS_Each s f \<sigma>) = set_Each s f \<sigma>"
  by (simp add: SetTS_Each_def set_Each_def)

lemma fst_SetTS_List: "fst (SetTS_List s) = set_List s"
  by (simp add: SetTS_List_def set_List_def)

lemma fst_SetTS_Copy: "fst (SetTS_Copy nan s) = set_Copy nan s"
  by (simp add: SetTS_Copy_def set_Copy_def fst_SetTS_Add newTS_def newNonTS_def)

lemma fst_SetTS_IsEqual: "fst (SetTS_IsEqual nan s t) = set_IsEqual nan s t"
  by (simp add: SetTS_IsEqual_def set_IsEqual_def Let_def)

lemma fst_SetTS_Merge: "fst (SetTS_Merge nan s t) = set_Merge nan s t"
  by (simp add: SetTS_Merge_def set_Merge_def)

lemmas fst_SetTS = fst_SetTS_Add fst_SetTS_Remove fst_SetTS_Pop fst_SetTS_Has fst_SetTS_Size
  fst_SetTS_Clear fst_SetTS_Each fst_SetTS_List fst_SetTS_Copy fst_SetTS_IsEqual fst_SetTS_Merge

subsection \<open>Calls through the interface\<close>

text \<open>Both dynamic types act on the storage as the baseline methods do.\<close>

lemma m_of_Add: "m_of (Add nan t items) = set_Add nan (m_of t) items"
  by (cases t) (simp_all add: fst_SetTS)

lemma m_of_Remove: "m_of (Remove nan t items) = set_Remove nan (m_of t) items"
  by (cases t) (simp_all add: fst_SetTS)

lemma m_of_Copy: "m_of (Copy nan t) = set_Copy nan (m_of t)"
  by (cases t) (simp_all add: fst_SetTS)

lemma m_of_Clear: "m_of (Clear t) = set_Clear (m_of t)"
  by (cases t) (simp_all add: fst_SetTS)

lemma m_of_Merge: "m_of (Merge nan t u) = set_Merge nan (m_of t) u"
  by (cases t) (simp_all add: fst_SetTS)

lemma m_of_Separate: "m_of (Separate nan t u) = set_Separate nan (m_of t) u"
  by (cases t) (simp_all add: fst_SetTS)

lemma Has_eq: "Has nan t items = set_Has nan (m_of t) items"
  by (cases t) (simp_all add: fst_SetTS)

lemma Size_eq: "Size t = set_Size (m_of t)"
  by (cases t) (simp_all add: fst_SetTS)

lemma IsEmpty_eq: "IsEmpty t = set_IsEmpty (m_of t)"
  by (cases t) simp_all

lemma Each_eq: "Each t f \<sigma> = range_loop f (m_of t) \<sigma>"
  by (cases t) (simp_all add: fst_SetTS set_Each_def)

lemma List_eq: "List t = m_of t"
  by (cases t) (simp_all add: fst_SetTS set_List_eq)

lemma IsEqual_eq: "IsEqual nan t u = set_IsEqual nan (m_of t) u"
  by (cases t) (simp_all add: fst_SetTS)


lemma is_SetTS_Add: "is_SetTS (Add nan t items) = is_SetTS t"
  by (cases t) simp_all

lemma is_SetTS_Remove: "is_SetTS (Remove nan t items) = is_SetTS t"
  by (cases t) simp_all

lemma is_SetTS_Copy: "is_SetTS (Copy nan t) = is_SetTS t"
  by (cases t) simp_all

lemma is_SetTS_Separate: "is_SetTS (Separate nan s t) = is_SetTS s"
  by (cases s) simp_all

lemma Set_eqI: "is_SetTS s = is_SetTS t \<Longrightarrow> m_of s = m_of t \<Longrightarrow> s = t"
  by (cases s; cases t) simp_all

lemma Size_length: "Size t = int (length (m_of t))"
  by (simp add: Size_eq set_Size_def len_def)

lemma IsEmpty_iff: "IsEmpty t = (m_of t = [])"
  by (simp add: IsEmpty_eq set_IsEmpty_def set_Size_def len_def)

lemma Has_single: "Has nan t [x] = (\<not> nan x \<and> x \<in> set (m_of t))"
  by (simp add: Has_eq set_Has_iff)

lemma set_m_of_Add: "set (m_of (Add nan t items)) = set (m_of t) \<union> set items"
  by (simp add: m_of_Add set_set_Add)

lemma set_m_of_Remove:
  "set (m_of (Remove nan t items)) = set (m_of t) - {x \<in> set items. \<not> nan x}"
  by (simp add: m_of_Remove set_set_Remove)

lemma map_wf_m_of_Add: "map_wf nan (m_of t) \<Longrightarrow> map_wf nan (m_of (Add nan t items))"
  by (simp add: m_of_Add map_wf_set_Add)

lemma map_wf_m_of_Remove: "map_wf nan (m_of t) \<Longrightarrow> map_wf nan (m_of (Remove nan t items))"
  by (simp add: m_of_Remove map_wf_set_Remove)

lemma m_of_New: "m_of (New setType) = []"
  by (simp add: New_def newTS_def newNonTS_def make_map_def)

section \<open>Membership tests\<close>

text \<open>
  Claim C7. \<^verbatim>\<open>Has\<close> called with no argument returns false, for sets of both dynamic types;
  called with one or more arguments it returns true exactly when every one of them is
  equal to itself and an element of the set.
\<close>

theorem Has_all_present:
  "\<not> Has nan t [] \<and>
   (items \<noteq> [] \<longrightarrow> Has nan t items = (\<forall>x \<in> set items. \<not> nan x \<and> x \<in> set (List t)))"
  by (auto simp: Has_eq set_Has_iff List_eq)

theorem Has_all_present_witness:
  "\<not> Has is_NaN (SetTS [Float 1, NaN, Float 3]) [] \<and>
   Has is_NaN (SetNonTS [Float 1, NaN, Float 3]) [Float 3, Float 1] \<and>
   \<not> Has is_NaN (SetTS [Float 1, NaN, Float 3]) [Float 1, NaN] \<and>
   \<not> Has is_NaN (SetTS [Float 1, NaN, Float 3]) [Float 1, Float 4, Float 3]"
  using Has_all_present [of is_NaN "SetTS [Float 1, NaN, Float 3]" "[Float 1, Float 4, Float 3]"]
    Has_all_present [of is_NaN "SetTS [Float 1, NaN, Float 3]" "[Float 1, NaN]"]
    Has_all_present [of is_NaN "SetNonTS [Float 1, NaN, Float 3]" "[Float 3, Float 1]"]
  by (simp add: List_eq)

text \<open>
  The claim as stated fails for an element that is not equal to itself: after
  \<^verbatim>\<open>Add(NaN)\<close> the set lists the NaN and has size 1, and \<^verbatim>\<open>Has(NaN)\<close> is false.
\<close>

theorem Has_all_present_counterexample:
  "NaN \<in> set (List (Add is_NaN (New NonThreadSafe) [NaN])) \<and>
   Size (Add is_NaN (New NonThreadSafe) [NaN]) = 1 \<and>
   \<not> Has is_NaN (Add is_NaN (New NonThreadSafe) [NaN]) [NaN]"
  by (simp add: New_def newNonTS_def make_map_def set_Add_def map_assign_def map_index_iff
      set_List_eq set_Size_def len_def set_Has_def)

section \<open>Popping an element\<close>




section \<open>Choosing the variant\<close>

text \<open>
  Claim C10. \<^verbatim>\<open>New\<close> returns the thread-safe variant for every \<^verbatim>\<open>SetType\<close> value other
  than \<^verbatim>\<open>NonThreadSafe\<close>, the integers that are neither constant included, and the
  non-thread-safe variant only for \<^verbatim>\<open>NonThreadSafe\<close>; the set it returns is empty.
\<close>

theorem New_variant:
  "is_SetTS (New setType :: 'a Set) = (setType \<noteq> NonThreadSafe) \<and>
   Size (New setType :: 'a Set) = 0"
  by (simp add: New_def Size_length newTS_def newNonTS_def make_map_def)

theorem New_variant_witness:
  "is_SetTS (New ThreadSafe :: int Set) \<and> is_SetTS (New 7 :: int Set) \<and>
   is_SetTS (New (- 1) :: int Set) \<and> \<not> is_SetTS (New NonThreadSafe :: int Set)"
  using New_variant [where ?'a = int and setType = ThreadSafe]
    New_variant [where ?'a = int and setType = 7]
    New_variant [where ?'a = int and setType = "- 1"]
    New_variant [where ?'a = int and setType = NonThreadSafe]
  by (simp add: ThreadSafe_def NonThreadSafe_def)

section \<open>The size after a sequence of calls\<close>

lemma map_wf_run_calls:
  "map_wf nan (m_of s) \<Longrightarrow> map_wf nan (m_of (run_calls nan s calls))"
  unfolding run_calls_def
proof (induction calls arbitrary: s)
  case Nil
  then show ?case by simp
next
  case (Cons c calls)
  then show ?case
    by (cases c) (simp_all add: map_wf_m_of_Add map_wf_m_of_Remove)
qed

lemma set_run_calls:
  "\<forall>c \<in> set calls. \<forall>x \<in> set (call_args c). \<not> nan x \<Longrightarrow>
   set (m_of (run_calls nan s calls)) =
     {x. (x \<in> set (m_of s) \<and> \<not> (\<exists>c \<in> set calls. removes c x)) \<or> added_not_removed calls x}"
  unfolding run_calls_def
proof (induction calls arbitrary: s)
  case Nil
  then show ?case by simp
next
  case (Cons c calls)
  from Cons.prems have rest: "\<forall>c \<in> set calls. \<forall>x \<in> set (call_args c). \<not> nan x"
    by simp
  show ?case
  proof (cases c)
    case (CallAdd items)
    then show ?thesis
      by (auto simp: Cons.IH [OF rest] set_m_of_Add)
  next
    case (CallRemove items)
    with Cons.prems have "{x \<in> set items. \<not> nan x} = set items"
      by auto
    with CallRemove show ?thesis
      by (auto simp: Cons.IH [OF rest] set_m_of_Remove)
  qed
qed

text \<open>
  Claim C1. After any finite sequence of \<^verbatim>\<open>Add\<close> and \<^verbatim>\<open>Remove\<close> calls on a set fresh from
  \<^verbatim>\<open>New\<close>, of either variant, whose arguments are all equal to themselves, \<^verbatim>\<open>Size\<close> is the
  number of distinct elements that some call added and no later call removed.
\<close>

theorem Size_after_calls:
  assumes "\<forall>c \<in> set calls. \<forall>x \<in> set (call_args c). \<not> nan x"
  shows "Size (run_calls nan (New setType) calls) = int (card {x. added_not_removed calls x})"
proof -
  let ?m = "m_of (run_calls nan (New setType) calls)"
  have s: "set ?m = {x. added_not_removed calls x}"
    using set_run_calls [OF assms] by (simp add: m_of_New)
  have "\<not> nan x" if "added_not_removed calls x" for x
    using that assms
  proof (induction calls)
    case Nil
    then show ?case by simp
  next
    case (Cons c calls)
    then show ?case by (cases c) auto
  qed
  with s have "\<forall>k \<in> set ?m. \<not> nan k"
    by simp
  moreover have "map_wf nan ?m"
    by (rule map_wf_run_calls) (simp add: m_of_New map_wf_def)
  ultimately have "distinct ?m"
    by (simp add: map_wf_distinct)
  then have "length ?m = card (set ?m)"
    by (simp add: distinct_card)
  with s show ?thesis
    by (simp add: Size_length)
qed

theorem Size_after_calls_witness:
  "card {x. added_not_removed [CallAdd [Float 1, Float 2, Float 2], CallRemove [Float 2, Float 5],
       CallAdd [Float 3, Float 1], CallRemove [], CallAdd [Float 5]] x} = 3"
proof -
  let ?calls = "[CallAdd [Float 1, Float 2, Float 2], CallRemove [Float 2, Float 5],
       CallAdd [Float 3, Float 1], CallRemove [], CallAdd [Float 5]]"
  have "\<forall>c \<in> set ?calls. \<forall>x \<in> set (call_args c). \<not> is_NaN x"
    by simp
  from Size_after_calls [OF this, of NonThreadSafe]
  have "int (card {x. added_not_removed ?calls x}) = Size (run_calls is_NaN (New NonThreadSafe) ?calls)"
    by simp
  also have "\<dots> = 3"
    by code_simp
  finally show ?thesis
    by simp
qed

text \<open>
  The claim as stated fails for an element that is not equal to itself: after
  \<^verbatim>\<open>Add(NaN)\<close> and \<^verbatim>\<open>Remove(NaN)\<close> the size is 1, and no element was added and not removed.
\<close>

theorem Size_after_calls_counterexample:
  "Size (run_calls is_NaN (New NonThreadSafe) [CallAdd [NaN], CallRemove [NaN]])
     \<noteq> int (card {x. added_not_removed [CallAdd [NaN], CallRemove [NaN]] x})"
proof -
  have "Size (run_calls is_NaN (New NonThreadSafe) [CallAdd [NaN], CallRemove [NaN]]) = 1"
    by code_simp
  moreover have "{x. added_not_removed [CallAdd [NaN], CallRemove [NaN]] x} = {}"
    by simp
  ultimately show ?thesis
    by simp
qed

section \<open>Properties of the methods and functions on two or more sets\<close>

subsection \<open>Equality\<close>

lemma range_loop_equal:
  "range_loop (\<lambda>item equal. (map_index nan s item, map_index nan s item)) xs e
     = (if xs = [] then e else (\<forall>x \<in> set xs. \<not> nan x \<and> x \<in> set s))"
  by (induction xs arbitrary: e) (auto simp: map_index_iff)

lemma set_IsEqual_iff:
  "set_IsEqual nan s t
     = (length s = length (m_of t) \<and> (\<forall>x \<in> set (m_of t). \<not> nan x \<and> x \<in> set s))"
  by (auto simp: set_IsEqual_def Let_def Each_eq range_loop_equal Size_length len_def)

lemma IsEqual_iff:
  "IsEqual nan s t
     = (length (m_of s) = length (m_of t) \<and> (\<forall>x \<in> set (m_of t). \<not> nan x \<and> x \<in> set (m_of s)))"
  by (simp add: IsEqual_eq set_IsEqual_iff)

text \<open>
  For maps, equal sizes with one set of keys, free of NaN, inside the other is the same
  as equal key sets free of NaN.
\<close>

lemma same_elements_iff:
  assumes "map_wf nan xs" and "map_wf nan ys"
  shows "(length xs = length ys \<and> (\<forall>x \<in> set ys. \<not> nan x \<and> x \<in> set xs))
           = (set xs = set ys \<and> (\<forall>x \<in> set ys. \<not> nan x))"
proof
  assume a: "length xs = length ys \<and> (\<forall>x \<in> set ys. \<not> nan x \<and> x \<in> set xs)"
  then have dy: "distinct ys"
    using assms(2) by (simp add: map_wf_distinct)
  from a have sub: "set ys \<subseteq> set xs"
    by auto
  have "card (set xs) \<le> length xs"
    by (rule card_length)
  also have "\<dots> = card (set ys)"
    using a dy by (simp add: distinct_card)
  finally have "card (set xs) \<le> card (set ys)" .
  with sub have "set ys = set xs"
    by (simp add: card_seteq)
  with a show "set xs = set ys \<and> (\<forall>x \<in> set ys. \<not> nan x)"
    by simp
next
  assume b: "set xs = set ys \<and> (\<forall>x \<in> set ys. \<not> nan x)"
  with assms have "distinct xs" and "distinct ys"
    by (simp_all add: map_wf_distinct)
  with b have "length xs = length ys"
    by (metis distinct_card)
  with b show "length xs = length ys \<and> (\<forall>x \<in> set ys. \<not> nan x \<and> x \<in> set xs)"
    by simp
qed

subsection \<open>Union\<close>

lemma set_m_of_Copy: "set (m_of (Copy nan t)) = set (m_of t)"
  by (simp add: m_of_Copy set_set_Copy)

lemma map_wf_m_of_Copy: "map_wf nan (m_of (Copy nan t))"
  by (simp add: m_of_Copy map_wf_set_Copy)

lemma Copy_id: "map_wf nan (m_of t) \<Longrightarrow> Copy nan t = t"
  by (intro Set_eqI) (simp_all add: is_SetTS_Copy m_of_Copy set_Copy_id)

lemma Each_Add_all:
  "Each t (\<lambda>item u. (True, Add nan u [item])) u = fold (\<lambda>item u. Add nan u [item]) (m_of t) u"
  by (simp add: Each_eq range_loop_continue)

lemma set_fold_Add:
  "set (m_of (fold (\<lambda>item u. Add nan u [item]) xs u)) = set (m_of u) \<union> set xs"
  by (induction xs arbitrary: u) (auto simp: set_m_of_Add)


lemma is_SetTS_fold_Add:
  "is_SetTS (fold (\<lambda>item u. Add nan u [item]) xs u) = is_SetTS u"
  by (induction xs arbitrary: u) (auto simp: is_SetTS_Add)

lemma set_fold_Each_Add:
  "set (m_of (fold (\<lambda>set' u. fold (\<lambda>item u. Add nan u [item]) (m_of set') u) sets u))
     = set (m_of u) \<union> (\<Union>s \<in> set sets. set (m_of s))"
  by (induction sets arbitrary: u) (auto simp: set_fold_Add)


lemma is_SetTS_fold_Each_Add:
  "is_SetTS (fold (\<lambda>set' u. fold (\<lambda>item u. Add nan u [item]) (m_of set') u) sets u)
     = is_SetTS u"
  by (induction sets arbitrary: u) (auto simp: is_SetTS_fold_Add)

lemma set_Union_sets:
  "set (m_of (Union_sets nan a b rest))
     = set (m_of a) \<union> set (m_of b) \<union> (\<Union>s \<in> set rest. set (m_of s))"
  by (simp add: Union_sets_def Let_def set_fold_Each_Add Each_Add_all set_fold_Add set_m_of_Copy)


lemma is_SetTS_Union_sets: "is_SetTS (Union_sets nan a b rest) = is_SetTS a"
  by (simp add: Union_sets_def Let_def is_SetTS_fold_Each_Add Each_Add_all is_SetTS_fold_Add
      is_SetTS_Copy)

subsection \<open>Intersection\<close>




lemma is_SetTS_drop_missing:
  "is_SetTS (fold (\<lambda>set' result. if \<not> Has nan set' [item] then Remove nan result [item]
       else result) sets r) = is_SetTS r"
  by (induction sets arbitrary: r) (auto simp: is_SetTS_Remove)


lemma is_SetTS_candidate_step: "is_SetTS (candidate_step nan a b rest item r) = is_SetTS r"
  by (simp add: candidate_step_def is_SetTS_drop_missing is_SetTS_Remove)


lemma is_SetTS_fold_candidate_step:
  "is_SetTS (fold (candidate_step nan a b rest) xs r) = is_SetTS r"
  by (induction xs arbitrary: r) (auto simp: is_SetTS_candidate_step)

lemma Intersection_fold:
  "Intersection nan a b rest
     = fold (candidate_step nan a b rest) (m_of (Union_sets nan a b rest))
         (Union_sets nan a b rest)"
proof -
  have "(\<lambda>item result.
            (True, fold (\<lambda>set' result. if \<not> Has nan set' [item] then Remove nan result [item]
                            else result)
               rest (if \<not> Has nan a [item] \<or> \<not> Has nan b [item] then Remove nan result [item]
                     else result)))
        = (\<lambda>item result. (True, candidate_step nan a b rest item result))"
    by (simp add: candidate_step_def)
  then show ?thesis
    by (simp add: Intersection_def Let_def Each_eq range_loop_continue)
qed




lemma is_SetTS_Intersection: "is_SetTS (Intersection nan a b rest) = is_SetTS a"
  by (simp add: Intersection_fold is_SetTS_fold_candidate_step is_SetTS_Union_sets)

subsection \<open>Difference\<close>

lemma set_m_of_Separate:
  "set (m_of (Separate nan s t)) = set (m_of s) - {x \<in> set (m_of t). \<not> nan x}"
  by (simp add: m_of_Separate set_Separate_def set_set_Remove List_eq)

lemma map_wf_m_of_Separate: "map_wf nan (m_of s) \<Longrightarrow> map_wf nan (m_of (Separate nan s t))"
  by (simp add: m_of_Separate set_Separate_def map_wf_set_Remove)

lemma set_fold_Separate:
  "set (m_of (fold (\<lambda>set' s. Separate nan s set') sets s))
     = set (m_of s) - (\<Union>t \<in> set sets. {x \<in> set (m_of t). \<not> nan x})"
  by (induction sets arbitrary: s) (auto simp: set_m_of_Separate)

lemma map_wf_fold_Separate:
  "map_wf nan (m_of s) \<Longrightarrow> map_wf nan (m_of (fold (\<lambda>set' s. Separate nan s set') sets s))"
  by (induction sets arbitrary: s) (auto simp: map_wf_m_of_Separate)

lemma set_Difference:
  "set (m_of (Difference nan a b rest))
     = set (m_of a) - {x \<in> set (m_of b). \<not> nan x}
         - (\<Union>t \<in> set rest. {x \<in> set (m_of t). \<not> nan x})"
  by (simp add: Difference_def Let_def set_fold_Separate set_m_of_Separate set_m_of_Copy)

lemma map_wf_Difference: "map_wf nan (m_of (Difference nan a b rest))"
  by (simp add: Difference_def Let_def map_wf_fold_Separate map_wf_m_of_Separate
      map_wf_m_of_Copy)

lemma set_SymmetricDifference:
  "set (m_of (SymmetricDifference nan s t))
     = (set (m_of s) - {x \<in> set (m_of t). \<not> nan x}) \<union> (set (m_of t) - {x \<in> set (m_of s). \<not> nan x})"
  by (simp add: SymmetricDifference_def Let_def set_Union_sets set_Difference)

section \<open>Equality of two sets\<close>

text \<open>
  Claim C2. For sets \<open>s\<close> and \<open>t\<close> of either variant, \<^verbatim>\<open>s.IsEqual(t)\<close> is true exactly when
  the two have the same size and \<^verbatim>\<open>Has\<close> finds every element of \<open>t\<close> in \<open>s\<close>, which is to say
  exactly when they have the same elements and each of them is equal to itself.
\<close>

theorem IsEqual_same_elements:
  assumes "map_wf nan (m_of s)" and "map_wf nan (m_of t)"
  shows "IsEqual nan s t = (Size s = Size t \<and> (\<forall>x \<in> set (List t). Has nan s [x])) \<and>
         IsEqual nan s t = (set (List s) = set (List t) \<and> (\<forall>x \<in> set (List t). \<not> nan x))"
proof -
  have "IsEqual nan s t = (Size s = Size t \<and> (\<forall>x \<in> set (List t). Has nan s [x]))"
    by (auto simp: IsEqual_iff Size_length List_eq Has_single)
  moreover have "IsEqual nan s t = (set (List s) = set (List t) \<and> (\<forall>x \<in> set (List t). \<not> nan x))"
    using same_elements_iff [OF assms] by (simp add: IsEqual_iff List_eq)
  ultimately show ?thesis
    by simp
qed

theorem IsEqual_same_elements_witness:
  "IsEqual is_NaN (SetNonTS [Float 1, Float 2, Float 3]) (SetTS [Float 3, Float 1, Float 2]) \<and>
   \<not> IsEqual is_NaN (SetTS [Float 1, Float 2, Float 3]) (SetNonTS [Float 1, Float 2, Float 4]) \<and>
   \<not> IsEqual is_NaN (SetNonTS [Float 1, Float 2, Float 3]) (SetNonTS [Float 1, Float 2]) \<and>
   \<not> IsEqual is_NaN (SetTS [Float 1, NaN]) (SetNonTS [NaN, Float 1])"
proof -
  have wf: "map_wf is_NaN (m_of (SetNonTS [Float 1, Float 2, Float 3]))"
    "map_wf is_NaN (m_of (SetTS [Float 3, Float 1, Float 2]))"
    "map_wf is_NaN (m_of (SetTS [Float 1, Float 2, Float 3]))"
    "map_wf is_NaN (m_of (SetNonTS [Float 1, Float 2, Float 4]))"
    "map_wf is_NaN (m_of (SetNonTS [Float 1, Float 2]))"
    "map_wf is_NaN (m_of (SetTS [Float 1, NaN]))"
    "map_wf is_NaN (m_of (SetNonTS [NaN, Float 1]))"
    by (simp_all add: map_wf_def)
  show ?thesis
    using IsEqual_same_elements [OF wf(1) wf(2)] IsEqual_same_elements [OF wf(3) wf(4)]
      IsEqual_same_elements [OF wf(1) wf(5)] IsEqual_same_elements [OF wf(6) wf(7)]
    by (simp add: Size_length List_eq Has_single)
qed

text \<open>
  The claim as stated fails on the set that holds one NaN, compared with itself: the two
  sets have the same size and the same elements, and \<^verbatim>\<open>IsEqual\<close> is false, because the
  lookup of the NaN in the receiver misses.
\<close>

theorem IsEqual_same_elements_counterexample:
  "\<not> (IsEqual is_NaN (SetNonTS [NaN]) (SetNonTS [NaN])
        = (Size (SetNonTS [NaN]) = Size (SetNonTS [NaN]) \<and>
           set (List (SetNonTS [NaN])) = set (List (SetNonTS [NaN]))))"
  by (simp add: set_IsEqual_iff)

section \<open>Intersection\<close>




section \<open>The size of a union\<close>




section \<open>Symmetric difference\<close>

text \<open>
  Claim C5. \<^verbatim>\<open>SymmetricDifference(a, b)\<close> is the union of \<^verbatim>\<open>Difference(a, b)\<close> and
  \<^verbatim>\<open>Difference(b, a)\<close>: \<^verbatim>\<open>Has\<close> finds in it the elements it finds in exactly one of the two
  sets, and it is empty exactly when \<^verbatim>\<open>a.IsEqual(b)\<close>.
\<close>

theorem SymmetricDifference_union_of_differences:
  assumes "map_wf nan (m_of s)" and "map_wf nan (m_of t)"
  shows "SymmetricDifference nan s t
           = Union_sets nan (Difference nan s t []) (Difference nan t s []) [] \<and>
         (\<forall>x. Has nan (SymmetricDifference nan s t) [x] = (Has nan s [x] \<noteq> Has nan t [x])) \<and>
         IsEmpty (SymmetricDifference nan s t) = IsEqual nan s t"
proof -
  have "IsEmpty (SymmetricDifference nan s t) = (set (m_of (SymmetricDifference nan s t)) = {})"
    by (simp add: IsEmpty_iff)
  also have "\<dots> = (set (m_of s) = set (m_of t) \<and> (\<forall>x \<in> set (m_of t). \<not> nan x))"
    by (auto simp: set_SymmetricDifference)
  also have "\<dots> = IsEqual nan s t"
    using same_elements_iff [OF assms] by (simp add: IsEqual_iff)
  finally show ?thesis
    by (auto simp: SymmetricDifference_def Has_single set_Union_sets set_Difference)
qed

theorem SymmetricDifference_union_of_differences_witness:
  "set (List (SymmetricDifference no_nan (SetNonTS [1, 2, 3 :: int]) (SetTS [3, 4, 5])))
     = {1, 2, 4, 5} \<and>
   \<not> IsEmpty (SymmetricDifference no_nan (SetNonTS [1, 2, 3 :: int]) (SetTS [3, 4, 5])) \<and>
   IsEmpty (SymmetricDifference no_nan (SetTS [2, 1 :: int]) (SetNonTS [1, 2]))"
proof -
  have l: "List (SymmetricDifference no_nan (SetNonTS [1, 2, 3 :: int]) (SetTS [3, 4, 5]))
      = [1, 2, 4, 5]"
    by code_simp
  have ne: "\<not> IsEqual no_nan (SetNonTS [1, 2, 3 :: int]) (SetTS [3, 4, 5])"
    by code_simp
  have eq: "IsEqual no_nan (SetTS [2, 1 :: int]) (SetNonTS [1, 2])"
    by code_simp
  have wf: "map_wf no_nan (m_of (SetNonTS [1, 2, 3 :: int]))" "map_wf no_nan (m_of (SetTS [3, 4, 5 :: int]))"
    "map_wf no_nan (m_of (SetTS [2, 1 :: int]))" "map_wf no_nan (m_of (SetNonTS [1, 2 :: int]))"
    by (simp_all add: map_wf_def no_nan_def)
  have "\<not> IsEmpty (SymmetricDifference no_nan (SetNonTS [1, 2, 3 :: int]) (SetTS [3, 4, 5]))"
    using SymmetricDifference_union_of_differences
      [OF wf(1) wf(2), THEN conjunct2, THEN conjunct2] ne
    by simp
  moreover have "IsEmpty (SymmetricDifference no_nan (SetTS [2, 1 :: int]) (SetNonTS [1, 2]))"
    using SymmetricDifference_union_of_differences
      [OF wf(3) wf(4), THEN conjunct2, THEN conjunct2] eq
    by simp
  ultimately show ?thesis
    using l by simp
qed

section \<open>Properties of the calls on the heap\<close>

lemma m_of_set_at: "m_of (set_at h p) = tables h ! m_addr h p"
  by (simp add: set_at_def)

lemma is_SetTS_set_at: "is_SetTS (set_at h p) = fst (structs h ! p)"
  by (simp add: set_at_def)

lemma structs_write_m: "structs (write_m h p mp) = structs h"
  by (simp add: write_m_def)

lemma tables_write_m: "tables (write_m h p mp) = (tables h)[m_addr h p := mp]"
  by (simp add: write_m_def)

lemma m_addr_write_m: "m_addr (write_m h p mp) r = m_addr h r"
  by (simp add: m_addr_def structs_write_m)

lemma heap_wf_write_m: "heap_wf h \<Longrightarrow> heap_wf (write_m h p mp)"
  by (simp add: heap_wf_def structs_write_m tables_write_m)

lemma set_at_write_m_other:
  "m_addr h r \<noteq> m_addr h p \<Longrightarrow> set_at (write_m h p mp) r = set_at h r"
  by (simp add: set_at_def m_addr_write_m structs_write_m tables_write_m)

lemma heap_wf_m_addr: "heap_wf h \<Longrightarrow> r < length (structs h) \<Longrightarrow> m_addr h r < length (tables h)"
  by (simp add: heap_wf_def m_addr_def)

lemma heap_wf_make_m: "heap_wf h \<Longrightarrow> heap_wf (make_m h p)"
  by (auto simp: heap_wf_def make_m_def dest!: set_update_subset_insert [THEN subsetD])

lemma length_structs_make_m: "length (structs (make_m h p)) = length (structs h)"
  by (simp add: make_m_def)

lemma m_addr_make_m:
  "p < length (structs h) \<Longrightarrow> m_addr (make_m h p) r = (if r = p then length (tables h) else m_addr h r)"
  by (simp add: make_m_def m_addr_def)

lemma set_at_make_m_other:
  "r \<noteq> p \<Longrightarrow> m_addr h r < length (tables h) \<Longrightarrow> set_at (make_m h p) r = set_at h r"
  by (simp add: set_at_def make_m_def m_addr_def nth_append)

text \<open>
  Two structs on one map share their elements: a call on one is seen through the other.
  Independence of two sets is therefore a property of the maps they refer to.
\<close>

lemma shared_map_is_seen:
  "set_at \<lparr>structs = [(False, 0), (False, 0)], tables = [[1 :: int]]\<rparr> 0 = SetNonTS [1] \<and>
   set_at (Add_at no_nan \<lparr>structs = [(False, 0), (False, 0)], tables = [[1 :: int]]\<rparr> 1 [2]) 0
     = SetNonTS [1, 2]"
  by (simp add: set_at_def m_addr_def Add_at_def write_m_def set_Add_def map_assign_def
      map_index_iff no_nan_def)

text \<open>
  One call on the set at \<open>a\<close> leaves alone every set whose map is not the map of \<open>a\<close>, and
  the two maps are different afterwards as well.
\<close>

lemma mutate_step:
  assumes "heap_wf h" and "a < length (structs h)" and "r < length (structs h)"
    and "m_addr h r \<noteq> m_addr h a" and "mutate nan z h a mu = Some h'"
  shows "heap_wf h' \<and> length (structs h') = length (structs h) \<and> set_at h' r = set_at h r \<and>
         m_addr h' r \<noteq> m_addr h' a"
proof -
  have via_write: ?thesis if "h' = write_m h a mp" for mp
    using assms(1,4) that
    by (simp add: heap_wf_write_m structs_write_m set_at_write_m_other m_addr_write_m)
  show ?thesis
  proof (cases mu)
    case (MutAdd items)
    with assms(5) have "h' = write_m h a (m_of (Add nan (set_at h a) items))"
      by (simp add: Add_at_def)
    then show ?thesis
      by (rule via_write)
  next
    case (MutRemove items)
    with assms(5) have "h' = write_m h a (m_of (Remove nan (set_at h a) items))"
      by (simp add: Remove_at_def)
    then show ?thesis
      by (rule via_write)
  next
    case MutPop
    with assms(5) have "h' = write_m h a (m_of (snd (Pop nan z (set_at h a))))"
      by (simp add: Pop_at_def split: prod.splits)
    then show ?thesis
      by (rule via_write)
  next
    case MutClear
    from assms(4) have "r \<noteq> a"
      by auto
    moreover have "m_addr h r < length (tables h)"
      using assms(1,3) by (rule heap_wf_m_addr)
    ultimately show ?thesis
      using assms(1,2,5) MutClear
      by (auto simp: Clear_at_def heap_wf_make_m length_structs_make_m m_addr_make_m
          set_at_make_m_other)
  next
    case (MutMerge q)
    with assms(5) have "h' = write_m h a (m_of (Merge nan (set_at h a) (set_at h q)))"
      by (simp add: Merge_at_def split: if_splits)
    then show ?thesis
      by (rule via_write)
  next
    case (MutSeparate q)
    with assms(5) have "h' = write_m h a (m_of (Separate nan (set_at h a) (set_at h q)))"
      by (simp add: Separate_at_def)
    then show ?thesis
      by (rule via_write)
  qed
qed

lemma mutate_all_frame:
  assumes "mutate_all nan z h calls = Some h'" and "\<forall>c \<in> set calls. fst c = a"
    and "heap_wf h" and "a < length (structs h)" and "r < length (structs h)"
    and "m_addr h r \<noteq> m_addr h a"
  shows "set_at h' r = set_at h r"
  using assms
proof (induction calls arbitrary: h)
  case Nil
  then show ?case by simp
next
  case (Cons c calls)
  obtain mu where c: "c = (a, mu)"
    using Cons.prems(2) by (cases c) auto
  from Cons.prems(1) obtain h1 where m: "mutate nan z h a mu = Some h1"
    and rest: "mutate_all nan z h1 calls = Some h'"
    by (auto simp: c split: option.splits)
  from mutate_step [OF Cons.prems(3,4,5,6) m]
  have s: "heap_wf h1" "length (structs h1) = length (structs h)" "set_at h1 r = set_at h r"
    "m_addr h1 r \<noteq> m_addr h1 a"
    by simp_all
  from Cons.prems(2) have "\<forall>c \<in> set calls. fst c = a"
    by simp
  from Cons.IH [OF rest this s(1)] s(2,4) Cons.prems(4,5) have "set_at h' r = set_at h1 r"
    by simp
  with s(3) show ?case
    by simp
qed

text \<open>The loop of \<^verbatim>\<open>Copy\<close> fills the map of \<^verbatim>\<open>u\<close> and touches nothing else.\<close>

lemma fold_Add_at:
  "fold (\<lambda>item h'. Add_at nan h' u [item]) items g
     = g\<lparr>tables := (tables g)[m_addr g u := fold (map_assign nan) items (tables g ! m_addr g u)]\<rparr>"
  if "m_addr g u < length (tables g)"
  using that
proof (induction items arbitrary: g)
  case Nil
  then show ?case by simp
next
  case (Cons item items)
  have step: "Add_at nan g u [item]
      = g\<lparr>tables := (tables g)[m_addr g u := map_assign nan item (tables g ! m_addr g u)]\<rparr>"
    by (simp add: Add_at_def write_m_def m_of_Add m_of_set_at set_Add_single)
  have "m_addr (Add_at nan g u [item]) u = m_addr g u"
    by (simp add: step m_addr_def)
  with Cons.prems Cons.IH [of "Add_at nan g u [item]"] show ?case
    by (simp add: step)
qed

lemma Copy_at_eq:
  assumes "Copy_at nan h p = (h1, q)"
  shows "q = length (structs h) \<and>
         h1 = h\<lparr>tables := tables h @ [set_Copy nan (m_of (set_at h p))],
                 structs := structs h @ [(is_SetTS (set_at h p), length (tables h))]\<rparr>"
proof -
  let ?g = "h\<lparr>tables := tables h @ [make_map],
      structs := structs h @ [(is_SetTS (set_at h p), length (tables h))]\<rparr>"
  let ?u = "length (structs h)"
  have a: "m_addr ?g ?u = length (tables h)"
    by (simp add: m_addr_def)
  then have "m_addr ?g ?u < length (tables ?g)"
    by simp
  from fold_Add_at [OF this, of nan "m_of (set_at h p)"] a
  have "fold (\<lambda>item h'. Add_at nan h' ?u [item]) (m_of (set_at h p)) ?g
      = h\<lparr>tables := tables h @ [set_Copy nan (m_of (set_at h p))],
           structs := structs h @ [(is_SetTS (set_at h p), length (tables h))]\<rparr>"
    by (simp add: set_Copy_fold make_map_def)
  with assms show ?thesis
    by (simp add: Copy_at_def new_set_def)
qed

section \<open>Copies are independent\<close>

text \<open>
  Claim C6. \<^verbatim>\<open>Copy\<close> of the set at \<open>p\<close> returns a new set at an address \<open>q\<close> of its own,
  whose field \<^verbatim>\<open>m\<close> refers to a map of its own, of the same variant, with the same elements
  and the same size, and leaves every set of the heap as it was. The copy and the original
  are equal under \<^verbatim>\<open>IsEqual\<close>, in both directions, exactly when every element is equal to
  itself. Afterwards no sequence of \<^verbatim>\<open>Add\<close>, \<^verbatim>\<open>Remove\<close>, \<^verbatim>\<open>Pop\<close>, \<^verbatim>\<open>Clear\<close>, \<^verbatim>\<open>Merge\<close> and
  \<^verbatim>\<open>Separate\<close> calls on the copy changes the original, and no such sequence on the
  original changes the copy, whatever sets the calls take as arguments.
\<close>

theorem Copy_independent:
  assumes "heap_wf h" and "p < length (structs h)" and "map_wf nan (m_of (set_at h p))"
    and "Copy_at nan h p = (h1, q)"
  shows "q = length (structs h) \<and> q \<noteq> p \<and> m_addr h1 q \<noteq> m_addr h1 p \<and>
         (\<forall>r < length (structs h). set_at h1 r = set_at h r) \<and>
         is_SetTS (set_at h1 q) = is_SetTS (set_at h1 p) \<and>
         set (List (set_at h1 q)) = set (List (set_at h1 p)) \<and>
         Size (set_at h1 q) = Size (set_at h1 p) \<and>
         IsEqual nan (set_at h1 q) (set_at h1 p) = (\<forall>x \<in> set (List (set_at h1 p)). \<not> nan x) \<and>
         IsEqual nan (set_at h1 p) (set_at h1 q) = (\<forall>x \<in> set (List (set_at h1 p)). \<not> nan x) \<and>
         (\<forall>calls h2. (\<forall>c \<in> set calls. fst c = q \<and> allocated h1 c) \<longrightarrow>
             mutate_all nan zeroVal h1 calls = Some h2 \<longrightarrow> set_at h2 p = set_at h1 p) \<and>
         (\<forall>calls h2. (\<forall>c \<in> set calls. fst c = p \<and> allocated h1 c) \<longrightarrow>
             mutate_all nan zeroVal h1 calls = Some h2 \<longrightarrow> set_at h2 q = set_at h1 q)"
proof -
  let ?n = "length (tables h)"
  from Copy_at_eq [OF assms(4)] have q: "q = length (structs h)"
    and h1: "h1 = h\<lparr>tables := tables h @ [set_Copy nan (m_of (set_at h p))],
                     structs := structs h @ [(is_SetTS (set_at h p), ?n)]\<rparr>"
    by simp_all
  from assms(2) q have ne: "q \<noteq> p"
    by simp
  have old_addr: "m_addr h1 r = m_addr h r" if "r < length (structs h)" for r
    using that by (simp add: h1 m_addr_def nth_append)
  have old_lt: "m_addr h r < ?n" if "r < length (structs h)" for r
    using assms(1) that by (rule heap_wf_m_addr)
  have old_set: "set_at h1 r = set_at h r" if "r < length (structs h)" for r
    using that old_lt [OF that] by (simp add: h1 set_at_def m_addr_def nth_append)
  have addr_q: "m_addr h1 q = ?n"
    by (simp add: h1 q m_addr_def)
  have addr_ne: "m_addr h1 q \<noteq> m_addr h1 p"
    using old_addr [OF assms(2)] old_lt [OF assms(2)] addr_q by simp
  have "set_at h1 q = Copy nan (set_at h p)"
    by (intro Set_eqI) (simp_all add: h1 q set_at_def m_addr_def m_of_Copy is_SetTS_Copy)
  with assms(3) have copy: "set_at h1 q = set_at h1 p"
    by (simp add: Copy_id old_set [OF assms(2)])
  have wf1: "heap_wf h1"
    using assms(1) by (auto simp: heap_wf_def h1)
  have lp: "p < length (structs h1)" and lq: "q < length (structs h1)"
    using assms(2) by (simp_all add: h1 q)
  have wfp: "map_wf nan (m_of (set_at h1 p))"
    using assms(3) by (simp add: old_set [OF assms(2)])
  have eq: "IsEqual nan (set_at h1 p) (set_at h1 p) = (\<forall>x \<in> set (List (set_at h1 p)). \<not> nan x)"
    using same_elements_iff [OF wfp wfp] by (simp add: IsEqual_iff List_eq)
  have frame_copy: "set_at h2 p = set_at h1 p"
    if "\<forall>c \<in> set calls. fst c = q \<and> allocated h1 c"
      and "mutate_all nan zeroVal h1 calls = Some h2" for calls h2
    using mutate_all_frame [OF that(2) _ wf1 lq lp] that(1) addr_ne by auto
  have frame_orig: "set_at h2 q = set_at h1 q"
    if "\<forall>c \<in> set calls. fst c = p \<and> allocated h1 c"
      and "mutate_all nan zeroVal h1 calls = Some h2" for calls h2
    using mutate_all_frame [OF that(2) _ wf1 lp lq] that(1) addr_ne by auto
  from q ne addr_ne old_set eq frame_copy frame_orig show ?thesis
    unfolding copy by blast
qed

text \<open>
  A heap with the thread-safe set \<open>{1, 2}\<close> at address 0, on its map at address 0. The copy
  is the struct at address 1 on the map at address 1. Calls on either leave the other.
\<close>

theorem Copy_independent_witness:
  "Copy_at no_nan \<lparr>structs = [(True, 0)], tables = [[1, 2 :: int]]\<rparr> 0
     = (\<lparr>structs = [(True, 0), (True, 1)], tables = [[1, 2], [1, 2]]\<rparr>, 1) \<and>
   IsEqual no_nan (SetTS [1, 2 :: int]) (SetTS [1, 2]) \<and>
   (\<exists>h2. mutate_all no_nan 0 \<lparr>structs = [(True, 0), (True, 1)], tables = [[1, 2 :: int], [1, 2]]\<rparr>
       [(1, MutAdd [3]), (1, MutSeparate 0), (1, MutMerge 0), (1, MutPop), (1, MutClear),
        (1, MutRemove [7])] = Some h2 \<and> set_at h2 0 = SetTS [1, 2]) \<and>
   (\<exists>h2. mutate_all no_nan 0 \<lparr>structs = [(True, 0), (True, 1)], tables = [[1, 2 :: int], [1, 2]]\<rparr>
       [(0, MutPop), (0, MutMerge 1), (0, MutClear), (0, MutAdd [5])] = Some h2 \<and>
       set_at h2 1 = SetTS [1, 2])"
proof -
  let ?h = "\<lparr>structs = [(True, 0)], tables = [[1, 2 :: int]]\<rparr>"
  let ?h1 = "\<lparr>structs = [(True, 0), (True, 1)], tables = [[1, 2 :: int], [1, 2]]\<rparr>"
  let ?on_copy = "[(1, MutAdd [3]), (1, MutSeparate 0), (1, MutMerge 0), (1, MutPop), (1, MutClear),
        (1, MutRemove [7 :: int])]"
  let ?on_orig = "[(0, MutPop), (0, MutMerge 1), (0, MutClear), (0, MutAdd [5 :: int])]"
  have c: "Copy_at no_nan ?h 0 = (?h1, 1)"
    by code_simp
  have m1: "mutate_all no_nan 0 ?h1 ?on_copy
      = Some \<lparr>structs = [(True, 0), (True, 2)], tables = [[1, 2], [1, 2], []]\<rparr>"
    by code_simp
  have m2: "mutate_all no_nan 0 ?h1 ?on_orig
      = Some \<lparr>structs = [(True, 2), (True, 1)], tables = [[2, 1], [1, 2], [5]]\<rparr>"
    by code_simp
  have p1: "heap_wf ?h"
    by (simp add: heap_wf_def)
  have p2: "0 < length (structs ?h)"
    by simp
  have p3: "map_wf no_nan (m_of (set_at ?h 0))"
    by (simp add: set_at_def m_addr_def map_wf_def no_nan_def)
  note th = Copy_independent [OF p1 p2 p3 c, where zeroVal = 0]
  have s: "set_at ?h1 0 = SetTS [1, 2]" "set_at ?h1 1 = SetTS [1, 2]"
    by (simp_all add: set_at_def m_addr_def)
  from th have "IsEqual no_nan (set_at ?h1 1) (set_at ?h1 0)
      = (\<forall>x \<in> set (List (set_at ?h1 0)). \<not> no_nan x)"
    by blast
  then have e: "IsEqual no_nan (SetTS [1, 2 :: int]) (SetTS [1, 2])"
    unfolding s by (simp add: no_nan_def)
  have a1: "\<forall>c \<in> set ?on_copy. fst c = 1 \<and> allocated ?h1 c"
    by simp
  have a2: "\<forall>c \<in> set ?on_orig. fst c = 0 \<and> allocated ?h1 c"
    by simp
  from th have "\<forall>c \<in> set ?on_copy. fst c = 1 \<and> allocated ?h1 c \<Longrightarrow>
      mutate_all no_nan 0 ?h1 ?on_copy = Some h2 \<Longrightarrow> set_at h2 0 = set_at ?h1 0" for h2
    by blast
  from this [OF a1 m1]
  have f1: "set_at \<lparr>structs = [(True, 0), (True, 2)], tables = [[1, 2 :: int], [1, 2], []]\<rparr> 0
      = SetTS [1, 2]"
    by (simp only: s)
  from th have "\<forall>c \<in> set ?on_orig. fst c = 0 \<and> allocated ?h1 c \<Longrightarrow>
      mutate_all no_nan 0 ?h1 ?on_orig = Some h2 \<Longrightarrow> set_at h2 1 = set_at ?h1 1" for h2
    by blast
  from this [OF a2 m2]
  have f2: "set_at \<lparr>structs = [(True, 2), (True, 1)], tables = [[2, 1 :: int], [1, 2], [5]]\<rparr> 1
      = SetTS [1, 2]"
    by (simp only: s)
  from m1 f1 have g1: "\<exists>h2. mutate_all no_nan 0 ?h1 ?on_copy = Some h2 \<and> set_at h2 0 = SetTS [1, 2]"
    by blast
  from m2 f2 have g2: "\<exists>h2. mutate_all no_nan 0 ?h1 ?on_orig = Some h2 \<and> set_at h2 1 = SetTS [1, 2]"
    by blast
  from c e g1 g2 show ?thesis
    by blast
qed

text \<open>
  The claim as stated fails on the set that holds one NaN: the copy holds a NaN as well,
  and \<^verbatim>\<open>IsEqual\<close> between the copy and the original is false in both directions.
\<close>

theorem Copy_independent_counterexample:
  "Copy_at is_NaN \<lparr>structs = [(False, 0)], tables = [[NaN]]\<rparr> 0
     = (\<lparr>structs = [(False, 0), (False, 1)], tables = [[NaN], [NaN]]\<rparr>, 1) \<and>
   \<not> IsEqual is_NaN (set_at \<lparr>structs = [(False, 0), (False, 1)], tables = [[NaN], [NaN]]\<rparr> 1)
        (set_at \<lparr>structs = [(False, 0), (False, 1)], tables = [[NaN], [NaN]]\<rparr> 0) \<and>
   \<not> IsEqual is_NaN (set_at \<lparr>structs = [(False, 0), (False, 1)], tables = [[NaN], [NaN]]\<rparr> 0)
        (set_at \<lparr>structs = [(False, 0), (False, 1)], tables = [[NaN], [NaN]]\<rparr> 1)"
proof -
  have "Copy_at is_NaN \<lparr>structs = [(False, 0)], tables = [[NaN]]\<rparr> 0
     = (\<lparr>structs = [(False, 0), (False, 1)], tables = [[NaN], [NaN]]\<rparr>, 1)"
    by code_simp
  then show ?thesis
    by (simp add: set_at_def m_addr_def set_IsEqual_iff)
qed

section \<open>Events of the thread-safe methods\<close>

lemma guarded_reads:
  "set xs \<subseteq> {Read} \<Longrightarrow> 0 < r \<or> w \<Longrightarrow> guarded r w (xs @ es) = guarded r w es"
  by (induction xs) auto

lemma guarded_writes:
  "guarded r True (map (\<lambda>item. Write) items @ es) = guarded r True es"
  by (induction items) auto

lemma set_range_events: "set (range_events f s \<sigma>) \<subseteq> {Read}"
  by (induction f s \<sigma> rule: range_events.induct) (auto split: prod.splits)

lemma set_Has_events: "set (Has_events nan s items) \<subseteq> {Read}"
  by (induction items) auto

lemma SetTS_methods_guarded:
  "lock_discipline (snd (SetTS_Add nan s items))"
  "lock_discipline (snd (SetTS_Remove nan s items))"
  "lock_discipline (snd (SetTS_Pop nan z s))"
  "lock_discipline (snd (SetTS_Has nan s items))"
  "lock_discipline (snd (SetTS_Size s))"
  "lock_discipline (snd (SetTS_Clear s))"
  "lock_discipline (snd (SetTS_Each s f \<sigma>))"
  "lock_discipline (snd (SetTS_List s))"
  "lock_discipline (snd (SetTS_IsEqual nan s t))"
  "lock_discipline (snd (SetTS_Merge nan s t))"
  by (simp_all add: lock_discipline_def SetTS_Add_def SetTS_Remove_def SetTS_Pop_def SetTS_Has_def
      SetTS_Size_def SetTS_Clear_def SetTS_Each_def SetTS_List_def SetTS_IsEqual_def
      SetTS_Merge_def Let_def guarded_reads guarded_writes set_range_events set_Has_events
      split: list.splits)

section \<open>The lock in \<^verbatim>\<open>SetTS.Copy\<close>\<close>

text \<open>
  Claim C9. The claim is that every method of the thread-safe variant holds the read lock
  while it reads the map and the exclusive lock while it writes it. \<^verbatim>\<open>SetTS.Copy\<close> does
  not: it ranges over the map of its receiver with no lock held, for every receiver.
\<close>

theorem SetTS_Copy_unguarded: "\<not> lock_discipline (snd (SetTS_Copy nan s))"
  by (cases s) (simp_all add: lock_discipline_def SetTS_Copy_def)

end
